theory Spec2Isabelle
  imports Complex_Main "HOL-Library.Sublist"
begin

section \<open>Python values\<close>

text \<open>
  A Python \<open>str\<close> is a sequence of Unicode code points, and \<open>str.strip\<close>, indexing and
  equality all work on code points. A string is therefore a list of code points; the
  literals of the source are written through \<open>lit\<close>.
\<close>

type_synonym pystr = "nat list"

definition lit :: "string \<Rightarrow> pystr" where
  "lit s = map of_char s"

text \<open>
  A Python \<open>float\<close>: only whether it is zero matters to this program (truthiness), so
  the finite values are rationals, with the negative zero and the three special values
  that \<open>json.loads\<close> accepts kept apart.
\<close>

datatype pyfloat = Finite rat | NegZero | PosInf | NegInf | NaN

text \<open>
  What \<open>response.json()\<close> can return: \<open>None\<close>, a bool, an int, a float, a str, a list
  or a dict with string keys. A dict is an association list read with \<open>map_of\<close>.
\<close>

datatype json =
    JNull
  | JBool bool
  | JInt int
  | JFloat pyfloat
  | JStr pystr
  | JList "json list"
  | JObj "(pystr \<times> json) list"

section \<open>Errors\<close>

text \<open>\<open>INVALID_PARAMS\<close> and \<open>INTERNAL_ERROR\<close> of \<open>mcp.types\<close>: the JSON-RPC error codes.\<close>

definition INVALID_PARAMS :: int where
  "INVALID_PARAMS = - 32602"

definition INTERNAL_ERROR :: int where
  "INTERNAL_ERROR = - 32603"

record ErrorData =
  code :: int
  message :: pystr

text \<open>
  The exceptions this program can meet. Each carries the text that \<open>str(e)\<close> gives;
  \<open>HTTPStatusError\<close> carries \<open>e.response.text\<close> as well. \<open>OtherException\<close> stands for
  what the HTTP client raises on its own as an \<open>Exception\<close> (network failure, timeout, a
  body that is not JSON). \<open>CancelledError\<close> is \<open>asyncio.CancelledError\<close>, raised at an
  \<open>await\<close> when the call is cancelled: a \<open>BaseException\<close> that is not an \<open>Exception\<close>,
  so that \<open>except Exception\<close> does not catch it.
\<close>

datatype py_exception =
    McpError ErrorData
  | HTTPStatusError pystr pystr
  | AttributeError pystr
  | TypeError pystr
  | KeyError pystr
  | IndexError pystr
  | OtherException pystr
  | CancelledError pystr

fun str_exc :: "py_exception \<Rightarrow> pystr" where
  "str_exc (McpError ed) = message ed"
| "str_exc (HTTPStatusError m body) = m"
| "str_exc (AttributeError m) = m"
| "str_exc (TypeError m) = m"
| "str_exc (KeyError m) = m"
| "str_exc (IndexError m) = m"
| "str_exc (OtherException m) = m"
| "str_exc (CancelledError m) = m"

text \<open>\<open>isinstance(e, Exception)\<close>: what a clause \<open>except Exception\<close> catches.\<close>

fun is_Exception :: "py_exception \<Rightarrow> bool" where
  "is_Exception (CancelledError m) = False"
| "is_Exception e = True"

section \<open>Operations of Python on these values\<close>

fun float_nonzero :: "pyfloat \<Rightarrow> bool" where
  "float_nonzero (Finite r) = (r \<noteq> 0)"
| "float_nonzero NegZero = False"
| "float_nonzero PosInf = True"
| "float_nonzero NegInf = True"
| "float_nonzero NaN = True"

text \<open>\<open>bool(v)\<close>, as \<open>not v\<close> uses it.\<close>

fun truthy :: "json \<Rightarrow> bool" where
  "truthy JNull = False"
| "truthy (JBool b) = b"
| "truthy (JInt i) = (i \<noteq> 0)"
| "truthy (JFloat f) = float_nonzero f"
| "truthy (JStr s) = (s \<noteq> [])"
| "truthy (JList xs) = (xs \<noteq> [])"
| "truthy (JObj d) = (d \<noteq> [])"

fun type_name :: "json \<Rightarrow> string" where
  "type_name JNull = ''NoneType''"
| "type_name (JBool b) = ''bool''"
| "type_name (JInt i) = ''int''"
| "type_name (JFloat f) = ''float''"
| "type_name (JStr s) = ''str''"
| "type_name (JList xs) = ''list''"
| "type_name (JObj d) = ''dict''"

definition quoted :: "string \<Rightarrow> string" where
  "quoted s = [CHR 0x27] @ s @ [CHR 0x27]"

definition no_attribute :: "json \<Rightarrow> string \<Rightarrow> py_exception" where
  "no_attribute v a =
     AttributeError (lit (quoted (type_name v) @ '' object has no attribute '' @ quoted a))"

definition not_subscriptable :: "json \<Rightarrow> py_exception" where
  "not_subscriptable v = TypeError (lit (quoted (type_name v) @ '' object is not subscriptable''))"

text \<open>\<open>d.get(k, dflt)\<close> on a dict.\<close>

definition dict_get :: "(pystr \<times> json) list \<Rightarrow> pystr \<Rightarrow> json \<Rightarrow> json" where
  "dict_get d k dflt = (case map_of d k of None \<Rightarrow> dflt | Some v \<Rightarrow> v)"

text \<open>\<open>v.get(k, dflt)\<close> on any value: only a dict has the method.\<close>

fun py_get :: "json \<Rightarrow> pystr \<Rightarrow> json \<Rightarrow> py_exception + json" where
  "py_get (JObj d) k dflt = Inr (dict_get d k dflt)"
| "py_get v k dflt = Inl (no_attribute v ''get'')"

text \<open>
  \<open>v[k]\<close> with a string key. In \<open>fetch_nutrition_data\<close> it follows a \<open>.get\<close> that has
  returned, so only the dict case is ever reached.
\<close>

fun getitem_key :: "json \<Rightarrow> pystr \<Rightarrow> py_exception + json" where
  "getitem_key (JObj d) k =
     (case map_of d k of
        None \<Rightarrow> Inl (KeyError (lit [CHR 0x27] @ k @ lit [CHR 0x27]))
      | Some v \<Rightarrow> Inr v)"
| "getitem_key (JList xs) k = Inl (TypeError (lit ''list indices must be integers or slices, not str''))"
| "getitem_key (JStr s) k = Inl (TypeError (lit ''string indices must be integers''))"
| "getitem_key v k = Inl (not_subscriptable v)"

text \<open>\<open>v[0]\<close>. The keys of a decoded JSON object are strings, so a dict never has the key 0.\<close>

fun getitem_0 :: "json \<Rightarrow> py_exception + json" where
  "getitem_0 (JList []) = Inl (IndexError (lit ''list index out of range''))"
| "getitem_0 (JList (x # xs)) = Inr x"
| "getitem_0 (JStr []) = Inl (IndexError (lit ''string index out of range''))"
| "getitem_0 (JStr (c # cs)) = Inr (JStr [c])"
| "getitem_0 (JObj d) = Inl (KeyError (lit ''0''))"
| "getitem_0 v = Inl (not_subscriptable v)"

text \<open>
  The code points that \<open>str.strip()\<close> removes: those for which \<open>str.isspace\<close> holds.
\<close>

definition py_isspace :: "nat \<Rightarrow> bool" where
  "py_isspace c \<longleftrightarrow>
     (9 \<le> c \<and> c \<le> 13) \<or> (28 \<le> c \<and> c \<le> 32) \<or> c = 133 \<or> c = 160 \<or> c = 5760 \<or>
     (8192 \<le> c \<and> c \<le> 8202) \<or> c = 8232 \<or> c = 8233 \<or> c = 8239 \<or> c = 8287 \<or> c = 12288"

definition strip :: "pystr \<Rightarrow> pystr" where
  "strip s = rev (dropWhile py_isspace (rev (dropWhile py_isspace s)))"

section \<open>Configuration and the outbound call\<close>

text \<open>The four environment variables, each asserted to be set when the module loads.\<close>

record config =
  TOKEN :: pystr
  MY_NUMBER :: pystr
  NUTRITIONIX_APP_ID :: pystr
  NUTRITIONIX_APP_KEY :: pystr

record request =
  url :: pystr
  headers :: "(pystr \<times> pystr) list"
  json_body :: json
  timeout :: pyfloat

text \<open>
  A response of the provider: its status code, its body as text, what \<open>response.json()\<close>
  gives on it (\<open>Inl\<close> the message of the decoding error), and the message the HTTP client
  puts in the \<open>HTTPStatusError\<close> it raises for this response.
\<close>

record response =
  status_code :: nat
  text_body :: pystr
  json_result :: "pystr + json"
  status_error_message :: pystr

text \<open>The awaited \<open>client.post\<close> either raises or returns a response.\<close>

datatype post_outcome = Raises py_exception | Returns response

type_synonym provider = "request \<Rightarrow> post_outcome"

text \<open>The only effect of the program: the requests sent so far.\<close>

record world =
  calls :: "request list"

definition raise_for_status :: "response \<Rightarrow> py_exception + unit" where
  "raise_for_status r =
     (if 200 \<le> status_code r \<and> status_code r \<le> 299 then Inr ()
      else Inl (HTTPStatusError (status_error_message r) (text_body r)))"

definition response_json :: "response \<Rightarrow> py_exception + json" where
  "response_json r = (case json_result r of Inl m \<Rightarrow> Inl (OtherException m) | Inr v \<Rightarrow> Inr v)"

section \<open>The tools\<close>

definition about :: "world \<Rightarrow> (py_exception + json) \<times> world" where
  "about w =
     (Inr (JObj [(lit ''name'', JStr (lit ''NutritiWisdom'')),
                 (lit ''description'',
                  JStr (lit ''A MCP server which gives you nutritional information of various food items''))]),
      w)"

definition validate :: "config \<Rightarrow> world \<Rightarrow> (py_exception + json) \<times> world" where
  "validate cfg w = (Inr (JStr (MY_NUMBER cfg)), w)"

definition fetch_request :: "config \<Rightarrow> pystr \<Rightarrow> request" where
  "fetch_request cfg query =
     \<lparr>url = lit ''https://trackapi.nutritionix.com/v2/natural/nutrients'',
      headers = [(lit ''x-app-id'', NUTRITIONIX_APP_ID cfg),
                 (lit ''x-app-key'', NUTRITIONIX_APP_KEY cfg),
                 (lit ''Content-Type'', lit ''application/json'')],
      json_body = JObj [(lit ''query'', JStr query)],
      timeout = Finite 10\<rparr>"

text \<open>The body of the \<open>try\<close> of \<open>fetch_nutrition_data\<close>, from the outcome of the POST on.\<close>

definition fetch_try :: "post_outcome \<Rightarrow> py_exception + json" where
  "fetch_try out =
     (case out of
        Raises e \<Rightarrow> Inl e
      | Returns r \<Rightarrow>
          (case raise_for_status r of
             Inl e \<Rightarrow> Inl e
           | Inr _ \<Rightarrow>
               (case response_json r of
                  Inl e \<Rightarrow> Inl e
                | Inr data \<Rightarrow>
                    (case py_get data (lit ''foods'') JNull of
                       Inl e \<Rightarrow> Inl e
                     | Inr foods \<Rightarrow>
                         if \<not> truthy foods
                         then Inl (McpError \<lparr>code = INVALID_PARAMS,
                                             message = lit ''No nutrition data found for this query''\<rparr>)
                         else (case getitem_key data (lit ''foods'') of
                                 Inl e \<Rightarrow> Inl e
                               | Inr fs \<Rightarrow> getitem_0 fs)))))"

text \<open>
  The two \<open>except\<close> clauses, in the order of the source: \<open>httpx.HTTPStatusError\<close> first,
  then every other \<open>Exception\<close>, the \<open>McpError\<close> raised inside the \<open>try\<close> included.
  What is not an \<open>Exception\<close> is caught by neither and leaves the function as it is.
\<close>

fun fetch_except :: "py_exception \<Rightarrow> py_exception" where
  "fetch_except (HTTPStatusError m body) =
     McpError \<lparr>code = INTERNAL_ERROR, message = lit ''Nutritionix API error: '' @ body\<rparr>"
| "fetch_except e =
     (if is_Exception e
      then McpError \<lparr>code = INTERNAL_ERROR,
                     message = lit ''Nutrition data fetch failed: '' @ str_exc e\<rparr>
      else e)"

definition fetch_nutrition_data ::
  "config \<Rightarrow> provider \<Rightarrow> pystr \<Rightarrow> world \<Rightarrow> (py_exception + json) \<times> world" where
  "fetch_nutrition_data cfg prov query w =
     (let req = fetch_request cfg query;
          w' = w\<lparr>calls := calls w @ [req]\<rparr>
      in (case fetch_try (prov req) of
            Inl e \<Rightarrow> (Inl (fetch_except e), w')
          | Inr v \<Rightarrow> (Inr v, w')))"

text \<open>
  The dict that \<open>analyze_nutrition\<close> builds from \<open>nutrition_data\<close>; the first \<open>.get\<close>
  raises when \<open>nutrition_data\<close> is not a dict.
\<close>

fun shape :: "json \<Rightarrow> py_exception + json" where
  "shape (JObj d) =
     Inr (JObj
       [(lit ''food'', dict_get d (lit ''food_name'') (JStr (lit ''Unknown''))),
        (lit ''serving'', JObj
          [(lit ''quantity'', dict_get d (lit ''serving_qty'') (JInt 1)),
           (lit ''unit'', dict_get d (lit ''serving_unit'') (JStr (lit ''serving''))),
           (lit ''weight_grams'', dict_get d (lit ''serving_weight_grams'') (JInt 0))]),
        (lit ''calories'', dict_get d (lit ''nf_calories'') (JInt 0)),
        (lit ''macronutrients'', JObj
          [(lit ''protein_g'', dict_get d (lit ''nf_protein'') (JInt 0)),
           (lit ''fat_g'', dict_get d (lit ''nf_total_fat'') (JInt 0)),
           (lit ''carbs_g'', dict_get d (lit ''nf_total_carbohydrate'') (JInt 0)),
           (lit ''fiber_g'', dict_get d (lit ''nf_dietary_fiber'') (JInt 0)),
           (lit ''sugars_g'', dict_get d (lit ''nf_sugars'') (JInt 0))]),
        (lit ''micronutrients'', JObj
          [(lit ''sodium_mg'', dict_get d (lit ''nf_sodium'') (JInt 0)),
           (lit ''cholesterol_mg'', dict_get d (lit ''nf_cholesterol'') (JInt 0)),
           (lit ''potassium_mg'', dict_get d (lit ''nf_potassium'') (JInt 0))]),
        (lit ''source'', JStr (lit ''Nutritionix API''))])"
| "shape v = Inl (no_attribute v ''get'')"

text \<open>The clause \<open>except Exception\<close> of \<open>analyze_nutrition\<close>.\<close>

definition analyze_except :: "py_exception \<Rightarrow> py_exception" where
  "analyze_except e =
     (if is_Exception e
      then McpError \<lparr>code = INTERNAL_ERROR,
                     message = lit ''Failed to analyze nutrition: '' @ str_exc e\<rparr>
      else e)"

definition analyze_nutrition ::
  "config \<Rightarrow> provider \<Rightarrow> pystr \<Rightarrow> world \<Rightarrow> (py_exception + json) \<times> world" where
  "analyze_nutrition cfg prov food_query w =
     (if \<not> (strip food_query \<noteq> [])
      then (Inl (McpError \<lparr>code = INVALID_PARAMS, message = lit ''Food query cannot be empty''\<rparr>), w)
      else (case fetch_nutrition_data cfg prov food_query w of
              (Inl e, w') \<Rightarrow> (Inl (analyze_except e), w')
            | (Inr nutrition_data, w') \<Rightarrow>
                (case shape nutrition_data of
                   Inl e \<Rightarrow> (Inl (analyze_except e), w')
                 | Inr report \<Rightarrow> (Inr report, w'))))"

section \<open>Reading a report\<close>

text \<open>The value at a path of keys in nested dicts, \<open>None\<close> when a key is missing.\<close>

fun lookup_path :: "pystr list \<Rightarrow> json \<Rightarrow> json option" where
  "lookup_path [] v = Some v"
| "lookup_path (k # ks) (JObj d) =
     (case map_of d k of None \<Rightarrow> None | Some v \<Rightarrow> lookup_path ks v)"
| "lookup_path (k # ks) v = None"

text \<open>The same on the result of a call: \<open>None\<close> when the call raised.\<close>

definition report_field :: "pystr list \<Rightarrow> py_exception + json \<Rightarrow> json option" where
  "report_field p res = (case res of Inl e \<Rightarrow> None | Inr report \<Rightarrow> lookup_path p report)"

text \<open>
  The field table of the specification, to compare \<open>shape\<close> with: the path of each of the
  13 leaf fields of the report, the provider field it is read from, and its documented
  default.
\<close>

definition documented_fields :: "(pystr list \<times> pystr \<times> json) list" where
  "documented_fields =
     [([lit ''food''], lit ''food_name'', JStr (lit ''Unknown'')),
      ([lit ''serving'', lit ''quantity''], lit ''serving_qty'', JInt 1),
      ([lit ''serving'', lit ''unit''], lit ''serving_unit'', JStr (lit ''serving'')),
      ([lit ''serving'', lit ''weight_grams''], lit ''serving_weight_grams'', JInt 0),
      ([lit ''calories''], lit ''nf_calories'', JInt 0),
      ([lit ''macronutrients'', lit ''protein_g''], lit ''nf_protein'', JInt 0),
      ([lit ''macronutrients'', lit ''fat_g''], lit ''nf_total_fat'', JInt 0),
      ([lit ''macronutrients'', lit ''carbs_g''], lit ''nf_total_carbohydrate'', JInt 0),
      ([lit ''macronutrients'', lit ''fiber_g''], lit ''nf_dietary_fiber'', JInt 0),
      ([lit ''macronutrients'', lit ''sugars_g''], lit ''nf_sugars'', JInt 0),
      ([lit ''micronutrients'', lit ''sodium_mg''], lit ''nf_sodium'', JInt 0),
      ([lit ''micronutrients'', lit ''cholesterol_mg''], lit ''nf_cholesterol'', JInt 0),
      ([lit ''micronutrients'', lit ''potassium_mg''], lit ''nf_potassium'', JInt 0)]"

section \<open>Example inputs\<close>

text \<open>A configuration, a provider that answers every request alike, and four responses.\<close>

definition example_config :: config where
  "example_config =
     \<lparr>TOKEN = lit ''secret'', MY_NUMBER = lit ''919876543210'',
      NUTRITIONIX_APP_ID = lit ''app-id'', NUTRITIONIX_APP_KEY = lit ''app-key''\<rparr>"

definition respond :: "response \<Rightarrow> provider" where
  "respond r = (\<lambda>req. Returns r)"

definition two_foods_response :: response where
  \<open>two_foods_response =
     \<lparr>status_code = 200,
      text_body = lit ''{"foods":[{"food_name":"banana","nf_calories":105},{"food_name":"toast"}]}'',
      json_result = Inr (JObj [(lit ''foods'', JList
        [JObj [(lit ''food_name'', JStr (lit ''banana'')), (lit ''nf_calories'', JInt 105)],
         JObj [(lit ''food_name'', JStr (lit ''toast''))]])]),
      status_error_message = []\<rparr>\<close>

definition no_foods_response :: response where
  \<open>no_foods_response =
     \<lparr>status_code = 200,
      text_body = lit ''{"foods": []}'',
      json_result = Inr (JObj [(lit ''foods'', JList [])]),
      status_error_message = []\<rparr>\<close>

definition bad_request_response :: response where
  \<open>bad_request_response =
     \<lparr>status_code = 400,
      text_body = lit ''bad request'',
      json_result = Inl (lit ''Expecting value: line 1 column 1 (char 0)''),
      status_error_message = lit ''Client error''\<rparr>\<close>

definition negative_calories_response :: response where
  \<open>negative_calories_response =
     \<lparr>status_code = 200,
      text_body = lit ''{"foods":[{"nf_calories":-5}]}'',
      json_result = Inr (JObj [(lit ''foods'', JList [JObj [(lit ''nf_calories'', JInt (- 5))]])]),
      status_error_message = []\<rparr>\<close>

definition server_error_foods_response :: response where
  \<open>server_error_foods_response =
     \<lparr>status_code = 500,
      text_body = lit ''{"foods":[{"food_name":"banana"}]}'',
      json_result = Inr (JObj [(lit ''foods'', JList
        [JObj [(lit ''food_name'', JStr (lit ''banana''))]])]),
      status_error_message = lit ''Server error''\<rparr>\<close>



text \<open>A number below zero, as JSON gives it.\<close>

fun negative_number :: "json \<Rightarrow> bool" where
  "negative_number (JInt i) = (i < 0)"
| "negative_number (JFloat (Finite r)) = (r < 0)"
| "negative_number (JFloat NegInf) = True"
| "negative_number v = False"

section \<open>Facts about literals\<close>

lemma lit_eq_iff [simp]: "lit a = lit b \<longleftrightarrow> a = b"
  unfolding lit_def by (simp add: inj_map_eq_map inj_on_def)

lemma lit_Nil [simp]: "lit [] = []"
  by (simp add: lit_def)

lemma lit_append: "lit (a @ b) = lit a @ lit b"
  by (simp add: lit_def)

section \<open>Shaping\<close>

text \<open>Every field of the table holds what \<open>.get\<close> with its default gives on the record.\<close>

lemma shape_fields:
  "list_all (\<lambda>(p, k, dflt). report_field p (shape (JObj d)) = Some (dict_get d k dflt))
     documented_fields"
  by (simp add: documented_fields_def report_field_def)

lemma shape_field:
  assumes "(p, k, dflt) \<in> set documented_fields"
  shows "report_field p (shape (JObj d)) = Some (dict_get d k dflt)"
  using assms shape_fields [of d] by (auto simp: list_all_iff)

lemma shape_source:
  "report_field [lit ''source''] (shape (JObj d)) = Some (JStr (lit ''Nutritionix API''))"
  by (simp add: report_field_def)

lemma documented_fields_count:
  "length documented_fields = 13 \<and> distinct (map fst documented_fields)"
  by (simp add: documented_fields_def)

text \<open>
  C3: shaping is total on mappings. For every provider record that is a dict, the empty
  one included, \<open>shape\<close> does not raise; the report it returns has each of the 13 leaf
  fields of the table, a field whose provider key is absent holds its documented default
  (\<open>0\<close>, \<open>"Unknown"\<close> for food, \<open>"serving"\<close> for the unit, \<open>1\<close> for the quantity), and
  source is \<open>"Nutritionix API"\<close>. \<open>shape\<close> takes and returns values only, so it has no
  effect.
\<close>

theorem shape_total:
  "\<exists>report. shape (JObj d) = Inr report \<and>
     (\<forall>(p, k, dflt) \<in> set documented_fields.
        lookup_path p report \<noteq> None \<and>
        (map_of d k = None \<longrightarrow> lookup_path p report = Some dflt)) \<and>
     lookup_path [lit ''source''] report = Some (JStr (lit ''Nutritionix API'')) \<and>
     length documented_fields = 13 \<and> distinct (map fst documented_fields)"
proof -
  obtain report where r: "shape (JObj d) = Inr report"
    by simp
  have "lookup_path p report = Some (dict_get d k dflt)"
    if "(p, k, dflt) \<in> set documented_fields" for p k dflt
    using shape_field [OF that, of d] unfolding r by (simp add: report_field_def)
  moreover have "lookup_path [lit ''source''] report = Some (JStr (lit ''Nutritionix API''))"
    using shape_source [of d] unfolding r by (simp add: report_field_def)
  ultimately show ?thesis
    using documented_fields_count unfolding r by (auto simp: dict_get_def)
qed

theorem shape_total_witness:
  "\<exists>report. shape (JObj []) = Inr report \<and>
     lookup_path [lit ''food''] report = Some (JStr (lit ''Unknown'')) \<and>
     lookup_path [lit ''serving'', lit ''quantity''] report = Some (JInt 1) \<and>
     lookup_path [lit ''serving'', lit ''unit''] report = Some (JStr (lit ''serving'')) \<and>
     lookup_path [lit ''calories''] report = Some (JInt 0) \<and>
     lookup_path [lit ''source''] report = Some (JStr (lit ''Nutritionix API''))"
  using shape_total [of "[]"] by (simp add: documented_fields_def)

text \<open>
  C4: the provider record \<open>{"food_name": "banana", "nf_calories": 105}\<close> is shaped into a
  report whose food is "banana", whose calories are 105, whose serving unit is "serving",
  whose protein is 0 and whose source is "Nutritionix API".
\<close>

theorem shape_banana:
  "report_field [lit ''food'']
     (shape (JObj [(lit ''food_name'', JStr (lit ''banana'')), (lit ''nf_calories'', JInt 105)])) =
     Some (JStr (lit ''banana'')) \<and>
   report_field [lit ''calories'']
     (shape (JObj [(lit ''food_name'', JStr (lit ''banana'')), (lit ''nf_calories'', JInt 105)])) =
     Some (JInt 105) \<and>
   report_field [lit ''serving'', lit ''unit'']
     (shape (JObj [(lit ''food_name'', JStr (lit ''banana'')), (lit ''nf_calories'', JInt 105)])) =
     Some (JStr (lit ''serving'')) \<and>
   report_field [lit ''macronutrients'', lit ''protein_g'']
     (shape (JObj [(lit ''food_name'', JStr (lit ''banana'')), (lit ''nf_calories'', JInt 105)])) =
     Some (JInt 0) \<and>
   report_field [lit ''source'']
     (shape (JObj [(lit ''food_name'', JStr (lit ''banana'')), (lit ''nf_calories'', JInt 105)])) =
     Some (JStr (lit ''Nutritionix API''))"
  by (simp add: report_field_def dict_get_def)

text \<open>
  C9: a default is used only for a key that is absent. When the record has the provider
  key of a field, the report holds the value stored under it, whatever it is; a key
  mapped to \<open>null\<close> gives \<open>null\<close> in the report, not the default.
\<close>

theorem shape_null_kept:
  "\<forall>(p, k, dflt) \<in> set documented_fields.
     (map_of d k = Some JNull \<longrightarrow> report_field p (shape (JObj d)) = Some JNull) \<and>
     (\<forall>v. map_of d k = Some v \<longrightarrow> report_field p (shape (JObj d)) = Some v)"
  using shape_field [of _ _ _ d] by (auto simp: dict_get_def)

theorem shape_null_kept_witness:
  "report_field [lit ''food''] (shape (JObj [(lit ''food_name'', JNull)])) = Some JNull \<and>
   JNull \<noteq> JStr (lit ''Unknown'')"
  using shape_null_kept [of "[(lit ''food_name'', JNull)]"]
  by (simp add: documented_fields_def)

section \<open>Blank queries\<close>

lemma strip_empty_iff: "strip s = [] \<longleftrightarrow> (\<forall>c \<in> set s. py_isspace c)"
proof
  assume "strip s = []"
  then have a: "\<forall>c \<in> set (dropWhile py_isspace s). py_isspace c"
    by (simp add: strip_def dropWhile_eq_Nil_conv)
  have "dropWhile py_isspace s = []"
  proof (rule ccontr)
    assume n: "dropWhile py_isspace s \<noteq> []"
    then have "\<not> py_isspace (hd (dropWhile py_isspace s))"
      by (rule hd_dropWhile)
    moreover have "hd (dropWhile py_isspace s) \<in> set (dropWhile py_isspace s)"
      using n by simp
    ultimately show False using a by blast
  qed
  then show "\<forall>c \<in> set s. py_isspace c"
    by (simp add: dropWhile_eq_Nil_conv)
next
  assume "\<forall>c \<in> set s. py_isspace c"
  then show "strip s = []"
    by (auto simp: strip_def dropWhile_eq_Nil_conv dest: set_dropWhileD)
qed

text \<open>
  C2: a query that is empty or made of whitespace only is refused with the invalid-input
  error "Food query cannot be empty"; the world is returned as it was, so no request has
  been sent to the provider.
\<close>

theorem blank_query_rejected:
  assumes "\<forall>c \<in> set food_query. py_isspace c"
  shows "analyze_nutrition cfg prov food_query w =
           (Inl (McpError \<lparr>code = INVALID_PARAMS, message = lit ''Food query cannot be empty''\<rparr>), w)"
  using assms by (simp add: analyze_nutrition_def strip_empty_iff)

theorem blank_query_rejected_witness:
  "analyze_nutrition example_config (respond two_foods_response) [] \<lparr>calls = []\<rparr> =
     (Inl (McpError \<lparr>code = INVALID_PARAMS, message = lit ''Food query cannot be empty''\<rparr>),
      \<lparr>calls = []\<rparr>) \<and>
   analyze_nutrition example_config (respond two_foods_response) (lit ''   '') \<lparr>calls = []\<rparr> =
     (Inl (McpError \<lparr>code = INVALID_PARAMS, message = lit ''Food query cannot be empty''\<rparr>),
      \<lparr>calls = []\<rparr>)"
  using blank_query_rejected [of "[]" example_config "respond two_foods_response" "\<lparr>calls = []\<rparr>"]
    blank_query_rejected [of "lit ''   ''" example_config "respond two_foods_response" "\<lparr>calls = []\<rparr>"]
  by (simp add: lit_def py_isspace_def)

section \<open>Fetching\<close>

lemma fetch_try_success:
  assumes "200 \<le> status_code r" "status_code r \<le> 299"
    and "json_result r = Inr (JObj d)"
    and "map_of d (lit ''foods'') = Some (JList (x # xs))"
  shows "fetch_try (Returns r) = Inr x"
  using assms
  by (simp add: fetch_try_def raise_for_status_def response_json_def dict_get_def)

lemma fetch_success:
  assumes "prov (fetch_request cfg query) = Returns r"
    and "200 \<le> status_code r" "status_code r \<le> 299"
    and "json_result r = Inr (JObj d)"
    and "map_of d (lit ''foods'') = Some (JList (x # xs))"
  shows "fetch_nutrition_data cfg prov query w =
           (Inr x, w\<lparr>calls := calls w @ [fetch_request cfg query]\<rparr>)"
  using assms fetch_try_success [of r d x xs]
  by (simp add: fetch_nutrition_data_def Let_def)

text \<open>
  C5, as stated, fails: \<open>raise_for_status\<close> runs before the body is decoded, so a response
  with a failure status raises even when its body is JSON with a non-empty list under
  "foods". For the status 500 and the body \<open>{"foods":[{"food_name":"banana"}]}\<close> the
  function raises the internal error of the HTTP handler.
\<close>

theorem fetch_error_status_counterexample:
  "json_result server_error_foods_response =
     Inr (JObj [(lit ''foods'', JList [JObj [(lit ''food_name'', JStr (lit ''banana''))]])]) \<and>
   map_of [(lit ''foods'', JList [JObj [(lit ''food_name'', JStr (lit ''banana''))]])] (lit ''foods'') =
     Some (JList [JObj [(lit ''food_name'', JStr (lit ''banana''))]]) \<and>
   fst (fetch_nutrition_data example_config (respond server_error_foods_response) (lit ''1 banana'')
          \<lparr>calls = []\<rparr>) =
     Inl (McpError \<lparr>code = INTERNAL_ERROR,
                     message = lit ''Nutritionix API error: '' @
                               text_body server_error_foods_response\<rparr>)"
  by (simp add: fetch_nutrition_data_def fetch_try_def raise_for_status_def respond_def
      server_error_foods_response_def Let_def)

text \<open>
  C5, amended: when the response has a success status (2xx), decodes to a JSON object and
  holds a non-empty list under "foods", \<open>fetch_nutrition_data\<close> returns the first element
  of that list as it is, after sending one request.
\<close>

theorem fetch_first_food:
  assumes "prov (fetch_request cfg query) = Returns r"
    and "200 \<le> status_code r" "status_code r \<le> 299"
    and "json_result r = Inr (JObj d)"
    and "map_of d (lit ''foods'') = Some (JList (x # xs))"
  shows "fetch_nutrition_data cfg prov query w =
           (Inr x, w\<lparr>calls := calls w @ [fetch_request cfg query]\<rparr>)"
  using assms by (rule fetch_success)

theorem fetch_first_food_witness:
  "fetch_nutrition_data example_config (respond two_foods_response) (lit ''banana and toast'')
     \<lparr>calls = []\<rparr> =
     (Inr (JObj [(lit ''food_name'', JStr (lit ''banana'')), (lit ''nf_calories'', JInt 105)]),
      \<lparr>calls = [fetch_request example_config (lit ''banana and toast'')]\<rparr>)"
  using fetch_first_food [of "respond two_foods_response" example_config "lit ''banana and toast''"
      two_foods_response _ _ _ "\<lparr>calls = []\<rparr>"]
  by (simp add: respond_def two_foods_response_def)

lemma fetch_try_http_error:
  assumes "\<not> (200 \<le> status_code r \<and> status_code r \<le> 299)"
  shows "fetch_try (Returns r) = Inl (HTTPStatusError (status_error_message r) (text_body r))"
  using assms by (auto simp: fetch_try_def raise_for_status_def)

text \<open>
  C6: when the status of the response is a failure (4xx or 5xx), \<open>fetch_nutrition_data\<close>
  raises an internal error whose message is "Nutritionix API error: " followed by the body
  of the response, so the message contains the body.
\<close>

theorem fetch_http_error:
  assumes "prov (fetch_request cfg query) = Returns r"
    and "400 \<le> status_code r" "status_code r \<le> 599"
  shows "fetch_nutrition_data cfg prov query w =
           (Inl (McpError \<lparr>code = INTERNAL_ERROR,
                            message = lit ''Nutritionix API error: '' @ text_body r\<rparr>),
            w\<lparr>calls := calls w @ [fetch_request cfg query]\<rparr>) \<and>
         sublist (text_body r) (lit ''Nutritionix API error: '' @ text_body r)"
proof -
  have "\<not> (200 \<le> status_code r \<and> status_code r \<le> 299)"
    using assms(2) by simp
  then show ?thesis
    using assms(1) fetch_try_http_error [of r]
    by (simp add: fetch_nutrition_data_def Let_def)
qed

theorem fetch_http_error_witness:
  "fetch_nutrition_data example_config (respond bad_request_response) (lit ''1 banana'')
     \<lparr>calls = []\<rparr> =
     (Inl (McpError \<lparr>code = INTERNAL_ERROR,
                      message = lit ''Nutritionix API error: bad request''\<rparr>),
      \<lparr>calls = [fetch_request example_config (lit ''1 banana'')]\<rparr>) \<and>
   sublist (lit ''bad request'') (lit ''Nutritionix API error: bad request'')"
  using fetch_http_error [of "respond bad_request_response" example_config "lit ''1 banana''"
      bad_request_response "\<lparr>calls = []\<rparr>"]
  by (simp add: respond_def bad_request_response_def lit_append [symmetric])

lemma fetch_try_no_match:
  assumes "200 \<le> status_code r" "status_code r \<le> 299"
    and "json_result r = Inr (JObj d)"
    and "\<not> truthy (dict_get d (lit ''foods'') JNull)"
  shows "fetch_try (Returns r) =
           Inl (McpError \<lparr>code = INVALID_PARAMS,
                           message = lit ''No nutrition data found for this query''\<rparr>)"
  using assms by (simp add: fetch_try_def raise_for_status_def response_json_def)

lemma fetch_no_match:
  assumes "prov (fetch_request cfg query) = Returns r"
    and "200 \<le> status_code r" "status_code r \<le> 299"
    and "json_result r = Inr (JObj d)"
    and "\<not> truthy (dict_get d (lit ''foods'') JNull)"
  shows "fetch_nutrition_data cfg prov query w =
           (Inl (McpError \<lparr>code = INTERNAL_ERROR,
                            message = lit ''Nutrition data fetch failed: No nutrition data found for this query''\<rparr>),
            w\<lparr>calls := calls w @ [fetch_request cfg query]\<rparr>)"
  using assms(1) fetch_try_no_match [OF assms(2-5)]
  by (simp add: fetch_nutrition_data_def Let_def lit_append [symmetric])

text \<open>
  C1: on the response \<open>{"foods": []}\<close> the \<open>McpError\<close> with \<open>INVALID_PARAMS\<close> and the
  message "No nutrition data found for this query" is raised inside the \<open>try\<close>, and the
  clause \<open>except Exception\<close> of the same \<open>try\<close> catches it: what leaves
  \<open>fetch_nutrition_data\<close> is an \<open>INTERNAL_ERROR\<close> with the message prefixed by
  "Nutrition data fetch failed: ".
\<close>

theorem fetch_no_match_rewrapped:
  "fetch_nutrition_data cfg (respond no_foods_response) query w =
     (Inl (McpError \<lparr>code = INTERNAL_ERROR,
                      message = lit ''Nutrition data fetch failed: No nutrition data found for this query''\<rparr>),
      w\<lparr>calls := calls w @ [fetch_request cfg query]\<rparr>) \<and>
   INTERNAL_ERROR \<noteq> INVALID_PARAMS \<and>
   lit ''Nutrition data fetch failed: No nutrition data found for this query'' \<noteq>
     lit ''No nutrition data found for this query''"
  using fetch_no_match [of "respond no_foods_response" cfg query no_foods_response
      "[(lit ''foods'', JList [])]" w]
  by (simp add: respond_def no_foods_response_def dict_get_def INTERNAL_ERROR_def INVALID_PARAMS_def)

section \<open>The identity tools\<close>

text \<open>
  C8: \<open>about\<close> takes no argument, does not raise, leaves the world as it is and returns
  the same dict of the two fields name and description on every call; \<open>validate\<close> does
  not raise and returns the configured \<open>MY_NUMBER\<close> on every call.
\<close>

theorem about_validate_constant:
  "about w =
     (Inr (JObj [(lit ''name'', JStr (lit ''NutritiWisdom'')),
                 (lit ''description'',
                  JStr (lit ''A MCP server which gives you nutritional information of various food items''))]),
      w) \<and>
   fst (about w) = fst (about w') \<and>
   validate cfg w = (Inr (JStr (MY_NUMBER cfg)), w) \<and>
   fst (validate cfg w) = fst (validate cfg w')"
  by (simp add: about_def validate_def)

section \<open>Analysing\<close>






lemma analyze_shaped:
  assumes "strip food_query \<noteq> []"
    and "fetch_nutrition_data cfg prov food_query w = (Inr nutrition_data, w')"
    and "shape nutrition_data = Inr report"
  shows "analyze_nutrition cfg prov food_query w = (Inr report, w')"
  using assms by (simp add: analyze_nutrition_def)




text \<open>
  C7, as stated, fails: the provider's values are copied into the report without a check
  of their sign. For the query "1 banana" and the response
  \<open>{"foods":[{"nf_calories":-5}]}\<close> the report has calories \<open>-5\<close>.
\<close>

theorem analyze_negative_counterexample:
  "strip (lit ''1 banana'') \<noteq> [] \<and>
   map_of [(lit ''nf_calories'', JInt (- 5))] (lit ''nf_calories'') = Some (JInt (- 5)) \<and>
   report_field [lit ''calories'']
     (fst (analyze_nutrition example_config (respond negative_calories_response) (lit ''1 banana'')
        \<lparr>calls = []\<rparr>)) = Some (JInt (- 5)) \<and>
   negative_number (JInt (- 5))"
  by (simp add: analyze_nutrition_def fetch_nutrition_data_def fetch_try_def raise_for_status_def
      response_json_def respond_def negative_calories_response_def dict_get_def report_field_def
      strip_empty_iff lit_def [of "''1 banana''"] py_isspace_def Let_def)

text \<open>
  C7, amended: for every non-blank query, when the provider returns at least one food
  record, \<open>analyze_nutrition\<close> returns a report with the 13 leaf fields present, and every
  leaf field for which the provider supplied a value holds that value unchanged.
\<close>

theorem analyze_report_fields:
  assumes "\<exists>c \<in> set food_query. \<not> py_isspace c"
    and "prov (fetch_request cfg food_query) = Returns r"
    and "200 \<le> status_code r" "status_code r \<le> 299"
    and "json_result r = Inr (JObj d)"
    and "map_of d (lit ''foods'') = Some (JList (JObj food_record # rest))"
  shows "\<exists>report.
           analyze_nutrition cfg prov food_query w =
             (Inr report, w\<lparr>calls := calls w @ [fetch_request cfg food_query]\<rparr>) \<and>
           (\<forall>(p, k, dflt) \<in> set documented_fields.
              lookup_path p report \<noteq> None \<and>
              (\<forall>v. map_of food_record k = Some v \<longrightarrow> lookup_path p report = Some v))"
proof -
  have nb: "strip food_query \<noteq> []"
    using assms(1) by (simp add: strip_empty_iff)
  obtain report where r: "shape (JObj food_record) = Inr report"
    by simp
  have a: "analyze_nutrition cfg prov food_query w =
             (Inr report, w\<lparr>calls := calls w @ [fetch_request cfg food_query]\<rparr>)"
  proof -
    note f = fetch_success [of prov cfg food_query r d "JObj food_record" rest w, OF assms(2-6)]
    show ?thesis
      using nb f r by (rule analyze_shaped)
  qed
  have "lookup_path p report = Some (dict_get food_record k dflt)"
    if "(p, k, dflt) \<in> set documented_fields" for p k dflt
    using shape_field [OF that, of food_record] unfolding r by (simp add: report_field_def)
  then show ?thesis
    using a by (auto simp: dict_get_def)
qed

theorem analyze_report_fields_witness:
  "\<exists>report.
     analyze_nutrition example_config (respond two_foods_response) (lit ''banana and toast'')
       \<lparr>calls = []\<rparr> =
       (Inr report, \<lparr>calls = [fetch_request example_config (lit ''banana and toast'')]\<rparr>) \<and>
     lookup_path [lit ''food''] report = Some (JStr (lit ''banana'')) \<and>
     lookup_path [lit ''calories''] report = Some (JInt 105) \<and>
     lookup_path [lit ''serving'', lit ''unit''] report \<noteq> None"
proof -
  let ?banana = "[(lit ''food_name'', JStr (lit ''banana'')), (lit ''nf_calories'', JInt 105)]"
  let ?toast = "JObj [(lit ''food_name'', JStr (lit ''toast''))]"
  let ?d = "[(lit ''foods'', JList [JObj ?banana, ?toast])]"
  let ?q = "lit ''banana and toast''"
  have q: "\<exists>c \<in> set ?q. \<not> py_isspace c"
    by (simp add: lit_def py_isspace_def)
  have p: "respond two_foods_response (fetch_request example_config ?q) = Returns two_foods_response"
    by (simp add: respond_def)
  have s: "200 \<le> status_code two_foods_response" "status_code two_foods_response \<le> 299"
    by (simp_all add: two_foods_response_def)
  have j: "json_result two_foods_response = Inr (JObj ?d)"
    by (simp add: two_foods_response_def)
  have m: "map_of ?d (lit ''foods'') = Some (JList (JObj ?banana # [?toast]))"
    by simp
  from analyze_report_fields [where prov = "respond two_foods_response" and w = "\<lparr>calls = []\<rparr>",
      OF q p s j m]
  obtain report where
    a: "analyze_nutrition example_config (respond two_foods_response) ?q \<lparr>calls = []\<rparr> =
          (Inr report, \<lparr>calls = [fetch_request example_config ?q]\<rparr>)"
    and b: "\<forall>(p, k, dflt) \<in> set documented_fields.
              lookup_path p report \<noteq> None \<and>
              (\<forall>v. map_of ?banana k = Some v \<longrightarrow> lookup_path p report = Some v)"
    by auto
  have "lookup_path [lit ''food''] report = Some (JStr (lit ''banana''))"
    and "lookup_path [lit ''calories''] report = Some (JInt 105)"
    and "lookup_path [lit ''serving'', lit ''unit''] report \<noteq> None"
    using b by (simp_all add: documented_fields_def)
  with a show ?thesis
    by blast
qed

end
